theory Spec2Isabelle
  imports Main "HOL-Library.Word"
begin

unbundle bit_operations_syntax

section \<open>tagged-block-common: the byte stream\<close>

text \<open>
  Every \<^verbatim>\<open>throw\<close> of the source is a constructor of \<open>error\<close>. The source
  tells its errors apart by class (\<^verbatim>\<open>UnexpectedBlockError\<close>,
  \<^verbatim>\<open>BlockOverflowError\<close>) and by message (\<^verbatim>\<open>'EOF'\<close>), so the model
  keeps one constructor per throw site.
\<close>

datatype error =
    EOF
  | BadTagType
  | UnexpectedBlockError
  | ValueIsNegative
  | InvalidTypedArrayLength
  | SeekOutOfBounds
  | BlockOverflowError
  | ExpectedAsciiFlag
  | NotInBlock
  | CyclicDependency
  | AlreadyHaveItem
  | NodeDoesNotExistForTreeNodeBlock
  | NodeDoesNotExistForSceneGroupItemBlock
  | ParentNodeDoesNotExist
  | TypeErrorUndefined

text \<open>
  \<^verbatim>\<open>enum TagType { ID = 0xF, Length4 = 0xC, Byte8 = 0x8, Byte4 = 0x4, Byte1 = 0x1 }\<close>
\<close>

datatype TagType = ID | Length4 | Byte8 | Byte4 | Byte1

fun tagTypeValue :: "TagType \<Rightarrow> int" where
  "tagTypeValue ID = 15"
| "tagTypeValue Length4 = 12"
| "tagTypeValue Byte8 = 8"
| "tagTypeValue Byte4 = 4"
| "tagTypeValue Byte1 = 1"

text \<open>
  \<^verbatim>\<open>Object.values(TagType).includes(v)\<close> for a number \<open>v\<close>: the values of a
  numeric enum are its names and its five numbers, so a number is included exactly when
  it is one of the five.
\<close>

definition tagTypeOfValue :: "int \<Rightarrow> TagType option" where
  "tagTypeOfValue v =
     (if v = 15 then Some ID
      else if v = 12 then Some Length4
      else if v = 8 then Some Byte8
      else if v = 4 then Some Byte4
      else if v = 1 then Some Byte1
      else None)"

text \<open>
  \<^verbatim>\<open>class DataStream\<close>: the \<^verbatim>\<open>ArrayBuffer\<close> and the cursor
  \<^verbatim>\<open>_position\<close>. The \<^verbatim>\<open>DataView\<close> is a view of the same buffer and
  carries no state of its own. An operation returns its result, or the error it throws,
  together with the stream as it is left: a throw does not undo the cursor moves made
  before it.
\<close>

record DataStream =
  buffer :: "8 word list"
  position :: nat

type_synonym 'a result = "(error + 'a) \<times> DataStream"

text \<open>\<^verbatim>\<open>new DataStream(data)\<close> copies the bytes and starts at position 0.\<close>

definition newDataStream :: "8 word list \<Rightarrow> DataStream" where
  "newDataStream bytes = \<lparr>buffer = bytes, position = 0\<rparr>"

text \<open>\<^verbatim>\<open>DataStream.forWriting(initialCapacity = 1024)\<close>: a zeroed buffer.\<close>

definition forWriting :: "nat \<Rightarrow> DataStream" where
  "forWriting initialCapacity = newDataStream (replicate initialCapacity 0)"

definition tell :: "DataStream \<Rightarrow> nat" where
  "tell s = position s"

definition seek :: "int \<Rightarrow> DataStream \<Rightarrow> unit result" where
  "seek pos s =
     (if pos < 0 \<or> pos > int (length (buffer s)) then (Inl SeekOutOfBounds, s)
      else (Inr (), s\<lparr>position := nat pos\<rparr>))"

text \<open>\<^verbatim>\<open>getBytes()\<close>: the first \<^verbatim>\<open>_position\<close> bytes of the buffer.\<close>

definition getBytes :: "DataStream \<Rightarrow> 8 word list" where
  "getBytes s = take (position s) (buffer s)"

definition readUint8 :: "DataStream \<Rightarrow> (8 word) result" where
  "readUint8 s =
     (if position s + 1 > length (buffer s) then (Inl EOF, s)
      else (Inr (buffer s ! position s), s\<lparr>position := position s + 1\<rparr>))"

definition readBool :: "DataStream \<Rightarrow> bool result" where
  "readBool s =
     (case readUint8 s of
        (Inl e, s') \<Rightarrow> (Inl e, s')
      | (Inr b, s') \<Rightarrow> (Inr (b \<noteq> 0), s'))"

text \<open>
  \<^verbatim>\<open>readBytes(n)\<close>. The count can be negative (it comes from
  \<^verbatim>\<open>readVaruint\<close> in several callers): the end-of-file test then passes and
  \<^verbatim>\<open>new Uint8Array(buffer, position, n)\<close> throws a \<^verbatim>\<open>RangeError\<close>.
\<close>

definition readBytes :: "int \<Rightarrow> DataStream \<Rightarrow> (8 word list) result" where
  "readBytes n s =
     (if int (position s) + n > int (length (buffer s)) then (Inl EOF, s)
      else if n < 0 then (Inl InvalidTypedArrayLength, s)
      else (Inr (take (nat n) (drop (position s) (buffer s))),
            s\<lparr>position := position s + nat n\<rparr>))"

text \<open>
  \<^verbatim>\<open>readVaruint\<close>. The accumulator is the operand of \<^verbatim>\<open>|=\<close> and
  \<^verbatim>\<open><<\<close>, which work on 32-bit two's complement integers: \<^verbatim>\<open><<\<close> takes
  its shift count modulo 32 and the result of \<^verbatim>\<open>|=\<close> is read as a signed
  32-bit value. \<^verbatim>\<open>shift\<close> itself is an ordinary number and grows by 7 without
  bound. The loop ends at the first byte without the continuation bit, or with
  \<^verbatim>\<open>EOF\<close> from \<^verbatim>\<open>readUint8\<close>.
\<close>

function readVaruint_loop :: "nat \<Rightarrow> 32 word \<Rightarrow> DataStream \<Rightarrow> int result" where
  "readVaruint_loop shift result s =
     (case readUint8 s of
        (Inl e, s') \<Rightarrow> (Inl e, s')
      | (Inr byte, s') \<Rightarrow>
          (let result' = result OR push_bit (shift mod 32) (ucast (byte AND 0x7F));
               shift' = shift + 7
           in if byte AND 0x80 = 0 then (Inr (sint result'), s')
              else readVaruint_loop shift' result' s'))"
  by pat_completeness auto
termination
  by (relation "measure (\<lambda>(shift, result, s). length (buffer s) - position s)")
     (auto simp: readUint8_def split: if_splits)

definition readVaruint :: "DataStream \<Rightarrow> int result" where
  "readVaruint s = readVaruint_loop 0 0 s"

text \<open>
  \<^verbatim>\<open>_readTagValues\<close>: \<^verbatim>\<open>x >> 4\<close> is the arithmetic shift of a signed
  32-bit value and \<^verbatim>\<open>x & 0xF\<close> its low four bits; on \<open>int\<close> these
  are \<open>drop_bit 4\<close> and \<open>AND 15\<close>.
\<close>

definition readTagValues :: "DataStream \<Rightarrow> (int \<times> TagType) result" where
  "readTagValues s =
     (case readVaruint s of
        (Inl e, s') \<Rightarrow> (Inl e, s')
      | (Inr x, s') \<Rightarrow>
          (let index = drop_bit 4 x;
               tagTypeValue = x AND 0xF
           in case tagTypeOfValue tagTypeValue of
                None \<Rightarrow> (Inl BadTagType, s')
              | Some tagType \<Rightarrow> (Inr (index, tagType), s')))"

text \<open>
  \<^verbatim>\<open>readTag(expectedIndex, expectedType)\<close>: the position is saved first and
  written back before each of the two \<^verbatim>\<open>UnexpectedBlockError\<close> throws. An error
  thrown inside \<^verbatim>\<open>_readTagValues\<close> leaves through the same call without any
  restore.
\<close>

definition readTag :: "int \<Rightarrow> TagType \<Rightarrow> DataStream \<Rightarrow> (int \<times> TagType) result" where
  "readTag expectedIndex expectedType s =
     (let pos = position s
      in case readTagValues s of
           (Inl e, s') \<Rightarrow> (Inl e, s')
         | (Inr (index, tagType), s') \<Rightarrow>
             if index \<noteq> expectedIndex then (Inl UnexpectedBlockError, s'\<lparr>position := pos\<rparr>)
             else if tagType \<noteq> expectedType then (Inl UnexpectedBlockError, s'\<lparr>position := pos\<rparr>)
             else (Inr (index, tagType), s'))"

text \<open>
  \<^verbatim>\<open>checkTag\<close>: \<^verbatim>\<open>try\<close>/\<^verbatim>\<open>catch\<close>/\<^verbatim>\<open>finally\<close>; every
  error becomes \<^verbatim>\<open>false\<close> and the position is written back on every path.
\<close>

definition checkTag :: "int \<Rightarrow> TagType \<Rightarrow> DataStream \<Rightarrow> bool \<times> DataStream" where
  "checkTag expectedIndex expectedType s =
     (let pos = position s
      in case readTagValues s of
           (Inl e, s') \<Rightarrow> (False, s'\<lparr>position := pos\<rparr>)
         | (Inr (index, tagType), s') \<Rightarrow>
             (index = expectedIndex \<and> tagType = expectedType, s'\<lparr>position := pos\<rparr>))"

subsection \<open>Writing\<close>

text \<open>
  \<^verbatim>\<open>_ensureCapacity\<close>: the size starts at the buffer's length, or 1024 when that is
  0, and doubles until it reaches what is needed. The doubling loop is entered with a
  positive size only; the model's loop stops at size 0, which the source never passes.
\<close>

function doubleUntil :: "nat \<Rightarrow> nat \<Rightarrow> nat" where
  "doubleUntil newSize needed =
     (if 0 < newSize \<and> newSize < needed then doubleUntil (newSize * 2) needed else newSize)"
  by pat_completeness auto
termination
  by (relation "measure (\<lambda>(newSize, needed). needed - newSize)") auto

definition ensureCapacity :: "nat \<Rightarrow> DataStream \<Rightarrow> DataStream" where
  "ensureCapacity additionalBytes s =
     (let needed = position s + additionalBytes
      in if needed \<le> length (buffer s) then s
         else
           (let newSize = doubleUntil (if length (buffer s) = 0 then 1024 else length (buffer s)) needed
            in s\<lparr>buffer := buffer s @ replicate (newSize - length (buffer s)) 0\<rparr>))"

definition writeBytes :: "8 word list \<Rightarrow> DataStream \<Rightarrow> DataStream" where
  "writeBytes bytes s =
     (let s1 = ensureCapacity (length bytes) s
      in s1\<lparr>buffer := take (position s1) (buffer s1) @ bytes
                         @ drop (position s1 + length bytes) (buffer s1),
             position := position s1 + length bytes\<rparr>)"

text \<open>
  \<^verbatim>\<open>writeVaruint(value)\<close> for an integer \<^verbatim>\<open>value\<close>. \<^verbatim>\<open>value & 0x7F\<close>
  is the low seven bits; \<^verbatim>\<open>value >>>= 7\<close> first reduces the value to an unsigned
  32-bit integer (\<open>take_bit 32\<close>, that is \<open>mod 2 ^ 32\<close>) and then shifts it.
  \<^verbatim>\<open>new Uint8Array(bytes)\<close> stores each number as a byte.
\<close>

function varuintBytes :: "int \<Rightarrow> 8 word list" where
  "varuintBytes v =
     (let toWrite = v AND 0x7F;
          v' = drop_bit 7 (take_bit 32 v)
      in if v' \<noteq> 0 then word_of_int (toWrite OR 0x80) # varuintBytes v'
         else [word_of_int toWrite])"
  by pat_completeness auto
termination
proof (relation "measure (\<lambda>v. nat (take_bit 32 v))")
  show "wf (measure (\<lambda>v. nat (take_bit 32 v)))"
    by simp
next
  fix v x xa :: int
  assume x: "x = v AND 0x7F" and xa: "xa = drop_bit 7 (take_bit 32 v)" and nz: "xa \<noteq> 0"
  have nonneg: "0 \<le> take_bit 32 v"
    by simp
  have "take_bit 32 v \<noteq> 0"
    using nz xa by auto
  with nonneg have pos: "0 < take_bit 32 v"
    by linarith
  have div: "xa = take_bit 32 v div 128"
    using xa by (simp add: drop_bit_eq_div)
  with pos have less: "xa < take_bit 32 v" and xa0: "0 \<le> xa"
    by simp_all
  have "take_bit 32 xa \<le> xa"
    using xa0 by (simp add: take_bit_int_less_eq_self_iff)
  with less have "take_bit 32 xa < take_bit 32 v"
    by linarith
  then show "(xa, v) \<in> measure (\<lambda>v. nat (take_bit 32 v))"
    using pos by simp
qed

definition writeVaruint :: "int \<Rightarrow> DataStream \<Rightarrow> (error + unit) \<times> DataStream" where
  "writeVaruint v s =
     (if v < 0 then (Inl ValueIsNegative, s)
      else (Inr (), writeBytes (varuintBytes v) s))"

subsection \<open>Fixed-width reads and CRDT ids\<close>

text \<open>
  Little-endian assembly of bytes into a word, as the \<^verbatim>\<open>DataView\<close> getters with
  \<^verbatim>\<open>littleEndian = true\<close> do. Floating-point values are kept as the IEEE-754 bit
  pattern that was read: the decoding of the bits into a number is not modelled, and no
  definition below computes with one.
\<close>

fun littleEndian :: "8 word list \<Rightarrow> 'a::len word" where
  "littleEndian [] = 0"
| "littleEndian (b # bs) = ucast b OR push_bit 8 (littleEndian bs)"

definition readUint16 :: "DataStream \<Rightarrow> int result" where
  "readUint16 s =
     (if position s + 2 > length (buffer s) then (Inl EOF, s)
      else (Inr (uint (littleEndian (take 2 (drop (position s) (buffer s))) :: 16 word)),
            s\<lparr>position := position s + 2\<rparr>))"

definition readUint32 :: "DataStream \<Rightarrow> int result" where
  "readUint32 s =
     (if position s + 4 > length (buffer s) then (Inl EOF, s)
      else (Inr (uint (littleEndian (take 4 (drop (position s) (buffer s))) :: 32 word)),
            s\<lparr>position := position s + 4\<rparr>))"

definition readFloat32 :: "DataStream \<Rightarrow> (32 word) result" where
  "readFloat32 s =
     (if position s + 4 > length (buffer s) then (Inl EOF, s)
      else (Inr (littleEndian (take 4 (drop (position s) (buffer s)))),
            s\<lparr>position := position s + 4\<rparr>))"

definition readFloat64 :: "DataStream \<Rightarrow> (64 word) result" where
  "readFloat64 s =
     (if position s + 8 > length (buffer s) then (Inl EOF, s)
      else (Inr (littleEndian (take 8 (drop (position s) (buffer s)))),
            s\<lparr>position := position s + 8\<rparr>))"

text \<open>\<^verbatim>\<open>interface CrdtId { part1: number; part2: number }\<close>\<close>

record CrdtId =
  part1 :: int
  part2 :: int

definition createCrdtId :: "int \<Rightarrow> int \<Rightarrow> CrdtId" where
  "createCrdtId p1 p2 = \<lparr>part1 = p1, part2 = p2\<rparr>"

definition crdtIdEquals :: "CrdtId \<Rightarrow> CrdtId \<Rightarrow> bool" where
  "crdtIdEquals a b = (part1 a = part1 b \<and> part2 a = part2 b)"

text \<open>\<^verbatim>\<open>crdtIdCompare\<close> returns -1, 0 or 1.\<close>

definition crdtIdCompare :: "CrdtId \<Rightarrow> CrdtId \<Rightarrow> int" where
  "crdtIdCompare a b =
     (if part1 a \<noteq> part1 b then (if part1 a < part1 b then -1 else 1)
      else if part2 a \<noteq> part2 b then (if part2 a < part2 b then -1 else 1)
      else 0)"

record 'a LwwValue =
  timestamp :: CrdtId
  lwwValue :: 'a

definition createLwwValue :: "CrdtId \<Rightarrow> 'a \<Rightarrow> 'a LwwValue" where
  "createLwwValue t v = \<lparr>timestamp = t, lwwValue = v\<rparr>"

text \<open>
  Sequencing of operations that may throw: the second runs on the state the first left,
  and only when the first returned.
\<close>

definition thenDo ::
  "('s \<Rightarrow> (error + 'a) \<times> 's) \<Rightarrow> ('a \<Rightarrow> 's \<Rightarrow> (error + 'b) \<times> 's) \<Rightarrow> 's \<Rightarrow> (error + 'b) \<times> 's" where
  "thenDo m f s = (case m s of (Inl e, s') \<Rightarrow> (Inl e, s') | (Inr a, s') \<Rightarrow> f a s')"

definition returnValue :: "'a \<Rightarrow> 's \<Rightarrow> (error + 'a) \<times> 's" where
  "returnValue a s = (Inr a, s)"

definition throwError :: "error \<Rightarrow> 's \<Rightarrow> (error + 'a) \<times> 's" where
  "throwError e s = (Inl e, s)"

definition readCrdtId :: "DataStream \<Rightarrow> CrdtId result" where
  "readCrdtId =
     thenDo readUint8 (\<lambda>p1.
     thenDo readVaruint (\<lambda>p2.
     returnValue (createCrdtId (uint p1) p2)))"

section \<open>tagged-block-reader\<close>

text \<open>
  \<^verbatim>\<open>BlockInfo\<close> and \<^verbatim>\<open>MainBlockInfo\<close>. \<^verbatim>\<open>SubBlockInfo\<close> adds
  nothing to \<^verbatim>\<open>BlockInfo\<close>.
\<close>

record BlockInfo =
  offset :: nat
  size' :: int
  extraData :: "8 word list"

record MainBlockInfo = BlockInfo +
  blockType :: int
  minVersion :: int
  currentVersion :: int

text \<open>
  \<^verbatim>\<open>class TaggedBlockReader\<close>: the stream, the block being read and the flag that
  keeps the extra-data warning to one per reader.
\<close>

record TaggedBlockReader =
  data :: DataStream
  currentBlock :: "MainBlockInfo option"
  warnedAboutExtraData :: bool

type_synonym 'a rresult = "(error + 'a) \<times> TaggedBlockReader"

definition newTaggedBlockReader :: "8 word list \<Rightarrow> TaggedBlockReader" where
  "newTaggedBlockReader bytes =
     \<lparr>data = newDataStream bytes, currentBlock = None, warnedAboutExtraData = False\<rparr>"

text \<open>\<^verbatim>\<open>reader.data.f()\<close>: an operation of the stream, run on the reader's stream.\<close>

definition onData :: "(DataStream \<Rightarrow> 'a result) \<Rightarrow> TaggedBlockReader \<Rightarrow> 'a rresult" where
  "onData f r = (case f (data r) of (x, s') \<Rightarrow> (x, r\<lparr>data := s'\<rparr>))"

definition readId :: "int \<Rightarrow> TaggedBlockReader \<Rightarrow> CrdtId rresult" where
  "readId index =
     thenDo (onData (readTag index ID)) (\<lambda>_. onData readCrdtId)"

definition readInt :: "int \<Rightarrow> TaggedBlockReader \<Rightarrow> int rresult" where
  "readInt index =
     thenDo (onData (readTag index Byte4)) (\<lambda>_. onData readUint32)"

text \<open>
  \<^verbatim>\<open>_readOptional\<close>: an \<^verbatim>\<open>UnexpectedBlockError\<close> or an error with the
  message \<^verbatim>\<open>'EOF'\<close> becomes the default value; any other error is thrown again.
  Nothing is restored in the \<^verbatim>\<open>catch\<close>: the stream stays where the failed read
  left it.
\<close>

definition readOptional ::
  "(int \<Rightarrow> TaggedBlockReader \<Rightarrow> 'a rresult) \<Rightarrow> int \<Rightarrow> 'a option
     \<Rightarrow> TaggedBlockReader \<Rightarrow> ('a option) rresult" where
  "readOptional func index defaultValue r =
     (case func index r of
        (Inr v, r') \<Rightarrow> (Inr (Some v), r')
      | (Inl e, r') \<Rightarrow>
          if e = UnexpectedBlockError \<or> e = EOF then (Inr defaultValue, r')
          else (Inl e, r'))"

definition readIntOptional :: "int \<Rightarrow> TaggedBlockReader \<Rightarrow> (int option) rresult" where
  "readIntOptional index = readOptional readInt index None"

definition readSubblock :: "int \<Rightarrow> TaggedBlockReader \<Rightarrow> BlockInfo rresult" where
  "readSubblock index =
     thenDo (onData (readTag index Length4)) (\<lambda>_.
     thenDo (onData readUint32) (\<lambda>subblockLength r.
       (Inr \<lparr>offset = tell (data r), size' = subblockLength, extraData = []\<rparr>, r)))"

text \<open>
  \<^verbatim>\<open>_checkPosition\<close>: an overflow throws; unread bytes are read into the info's
  \<^verbatim>\<open>extraData\<close>, after the warning flag is set. The updated info is returned, since
  the source writes \<^verbatim>\<open>extraData\<close> into the object it was given.
\<close>

definition checkPosition :: "BlockInfo \<Rightarrow> TaggedBlockReader \<Rightarrow> BlockInfo rresult" where
  "checkPosition blockInfo r =
     (let currentPos = int (tell (data r));
          blockEnd = int (offset blockInfo) + size' blockInfo
      in if currentPos > blockEnd then (Inl BlockOverflowError, r)
         else if currentPos < blockEnd then
           thenDo (onData (readBytes (blockEnd - currentPos)))
                  (\<lambda>excess. returnValue (blockInfo\<lparr>extraData := excess\<rparr>))
                  (r\<lparr>warnedAboutExtraData := True\<rparr>)
         else (Inr blockInfo, r))"

definition endSubblock :: "BlockInfo \<Rightarrow> TaggedBlockReader \<Rightarrow> unit rresult" where
  "endSubblock subblock = thenDo (checkPosition subblock) (\<lambda>_. returnValue ())"

text \<open>
  \<^verbatim>\<open>readString\<close>. A string is its list of UTF-16 code units, so that
  \<^verbatim>\<open>.length\<close> is the length of the list. \<^verbatim>\<open>TextDecoder('utf-8').decode\<close>
  belongs to the platform; it is the parameter \<open>decode\<close>.
\<close>

type_synonym jsstring = "16 word list"

definition readString ::
  "(8 word list \<Rightarrow> jsstring) \<Rightarrow> int \<Rightarrow> TaggedBlockReader \<Rightarrow> jsstring rresult" where
  "readString decode index =
     thenDo (readSubblock index) (\<lambda>subblock.
     thenDo (onData readVaruint) (\<lambda>stringLength.
     thenDo (onData readBool) (\<lambda>isAscii.
       if \<not> isAscii then throwError ExpectedAsciiFlag
       else
         thenDo (onData (readBytes stringLength)) (\<lambda>bytes.
         thenDo (endSubblock subblock) (\<lambda>_.
         returnValue (decode bytes))))))"

section \<open>scene-items and scene-stream: highlights\<close>

text \<open>\<^verbatim>\<open>interface Rectangle { x, y, w, h }\<close>, each a float64 read from the wire.\<close>

record Rectangle =
  rect_x :: "64 word"
  rect_y :: "64 word"
  rect_w :: "64 word"
  rect_h :: "64 word"

definition createRectangle :: "64 word \<Rightarrow> 64 word \<Rightarrow> 64 word \<Rightarrow> 64 word \<Rightarrow> Rectangle" where
  "createRectangle x y w h = \<lparr>rect_x = x, rect_y = y, rect_w = w, rect_h = h\<rparr>"

text \<open>
  \<^verbatim>\<open>interface GlyphRange\<close>. \<^verbatim>\<open>start: number | null\<close> is an option;
  \<^verbatim>\<open>color\<close> holds the number read from the wire (\<^verbatim>\<open>colorId as PenColor\<close> is
  a cast that checks nothing).
\<close>

record GlyphRange =
  glyphStart :: "int option"
  glyphLength :: int
  glyphText :: jsstring
  glyphColor :: int
  rectangles :: "Rectangle list"

definition createGlyphRange ::
  "int option \<Rightarrow> int \<Rightarrow> jsstring \<Rightarrow> int \<Rightarrow> Rectangle list \<Rightarrow> GlyphRange" where
  "createGlyphRange start len text color rects =
     \<lparr>glyphStart = start, glyphLength = len, glyphText = text, glyphColor = color,
      rectangles = rects\<rparr>"

text \<open>
  The loop \<^verbatim>\<open>for (let i = 0; i < numRects; i++)\<close> of \<^verbatim>\<open>readGlyphRange\<close>,
  by the number of iterations left.
\<close>

fun readRectangles :: "nat \<Rightarrow> TaggedBlockReader \<Rightarrow> (Rectangle list) rresult" where
  "readRectangles 0 = returnValue []"
| "readRectangles (Suc n) =
     thenDo (onData readFloat64) (\<lambda>x.
     thenDo (onData readFloat64) (\<lambda>y.
     thenDo (onData readFloat64) (\<lambda>w.
     thenDo (onData readFloat64) (\<lambda>h.
     thenDo (readRectangles n) (\<lambda>rest.
     returnValue (createRectangle x y w h # rest))))))"

text \<open>
  \<^verbatim>\<open>readGlyphRange\<close>. \<^verbatim>\<open>readIntOptional(3) ?? 0\<close> turns an absent length into
  0, and \<^verbatim>\<open>length || text.length\<close> replaces a length of 0 (the only falsy number an
  unsigned 32-bit read can give) by the length of the text. A negative
  \<^verbatim>\<open>numRects\<close> runs the loop zero times.
\<close>

definition readGlyphRange ::
  "(8 word list \<Rightarrow> jsstring) \<Rightarrow> TaggedBlockReader \<Rightarrow> GlyphRange rresult" where
  "readGlyphRange decode =
     thenDo (readIntOptional 2) (\<lambda>start.
     thenDo (readIntOptional 3) (\<lambda>lengthOpt.
     thenDo (readInt 4) (\<lambda>colorId.
     thenDo (readString decode 5) (\<lambda>text.
     thenDo (readSubblock 6) (\<lambda>subblock.
     thenDo (onData readVaruint) (\<lambda>numRects.
     thenDo (readRectangles (nat numRects)) (\<lambda>rects.
     thenDo (endSubblock subblock) (\<lambda>_.
       (let len = (case lengthOpt of None \<Rightarrow> 0 | Some l \<Rightarrow> l)
        in returnValue
             (createGlyphRange start (if len \<noteq> 0 then len else int (length text))
                text colorId rects))))))))))"

section \<open>crdt-sequence\<close>

text \<open>
  \<^verbatim>\<open>crdtIdToString\<close>: the template \<^verbatim>\<open>`CrdtId(${part1}, ${part2})`\<close>. The parts
  are integers, printed in decimal with a leading minus sign when negative. That is what
  JavaScript prints for every integer of magnitude up to \<open>2 ^ 53\<close>
  (\<open>exactInteger\<close>); a larger number is a double that JavaScript prints with the
  fewest digits that identify it (\<open>2 ^ 63\<close> as \<^verbatim>\<open>9223372036854776000\<close>), and
  the model does not follow it there. The ids that the reader produces have a byte and a
  signed 32-bit integer as parts. The string is ASCII, so a \<open>char\<close> stands for one
  UTF-16 code unit.
\<close>

definition exactInteger :: "int \<Rightarrow> bool" where
  "exactInteger i = (\<bar>i\<bar> \<le> 2 ^ 53)"

function showNat :: "nat \<Rightarrow> string" where
  "showNat n =
     (if n < 10 then [char_of (48 + n)]
      else showNat (n div 10) @ [char_of (48 + n mod 10)])"
  by pat_completeness auto
termination
  by (relation "measure (\<lambda>n. n)") auto

definition showInt :: "int \<Rightarrow> string" where
  "showInt i = (if i < 0 then CHR ''-'' # showNat (nat (- i)) else showNat (nat i))"

definition crdtIdToString :: "CrdtId \<Rightarrow> string" where
  "crdtIdToString cid = ''CrdtId('' @ showInt (part1 cid) @ '', '' @ showInt (part2 cid) @ '')''"

definition END_MARKER :: CrdtId where
  "END_MARKER = \<lparr>part1 = 0, part2 = 0\<rparr>"

record 'a CrdtSequenceItem =
  itemId :: CrdtId
  leftId :: CrdtId
  rightId :: CrdtId
  deletedLength :: int
  itemValue :: 'a

definition createCrdtSequenceItem ::
  "CrdtId \<Rightarrow> CrdtId \<Rightarrow> CrdtId \<Rightarrow> int \<Rightarrow> 'a \<Rightarrow> 'a CrdtSequenceItem" where
  "createCrdtSequenceItem i l r d v =
     \<lparr>itemId = i, leftId = l, rightId = r, deletedLength = d, itemValue = v\<rparr>"

text \<open>
  A JavaScript \<^verbatim>\<open>Map\<close> with string keys is an association list in insertion order
  without repeated keys: \<^verbatim>\<open>set\<close> on a key that is present replaces the value where
  it stands, on a new key it appends. A \<^verbatim>\<open>Set\<close> of strings is a list in insertion
  order without repetitions.
\<close>

type_synonym ('v) jsmap = "(string \<times> 'v) list"

definition mapHas :: "string \<Rightarrow> 'v jsmap \<Rightarrow> bool" where
  "mapHas k m = (map_of m k \<noteq> None)"

definition mapGet :: "string \<Rightarrow> 'v jsmap \<Rightarrow> 'v option" where
  "mapGet k m = map_of m k"

fun mapSet :: "string \<Rightarrow> 'v \<Rightarrow> 'v jsmap \<Rightarrow> 'v jsmap" where
  "mapSet k v [] = [(k, v)]"
| "mapSet k v ((k', v') # m) = (if k = k' then (k, v) # m else (k', v') # mapSet k v m)"

definition setAdd :: "string \<Rightarrow> string list \<Rightarrow> string list" where
  "setAdd x xs = (if x \<in> set xs then xs else xs @ [x])"

text \<open>
  \<^verbatim>\<open>Array.prototype.sort()\<close> without a comparator orders strings by their UTF-16
  code units, a proper prefix before its extensions. The strings it is given here are the
  distinct elements of a \<^verbatim>\<open>Set\<close>, so the order alone fixes the result; the model
  sorts by insertion.
\<close>

fun codeUnitLess :: "string \<Rightarrow> string \<Rightarrow> bool" where
  "codeUnitLess [] [] = False"
| "codeUnitLess [] (y # ys) = True"
| "codeUnitLess (x # xs) [] = False"
| "codeUnitLess (x # xs) (y # ys) =
     ((of_char x :: nat) < of_char y \<or> (x = y \<and> codeUnitLess xs ys))"

fun sortInsert :: "string \<Rightarrow> string list \<Rightarrow> string list" where
  "sortInsert x [] = [x]"
| "sortInsert x (y # ys) = (if codeUnitLess y x then y # sortInsert x ys else x # y # ys)"

definition defaultSort :: "string list \<Rightarrow> string list" where
  "defaultSort xs = foldr sortInsert xs []"

text \<open>\<^verbatim>\<open>toposortItems\<close>, in the order of the source.\<close>

definition buildItemDict :: "'a CrdtSequenceItem list \<Rightarrow> ('a CrdtSequenceItem) jsmap" where
  "buildItemDict items = fold (\<lambda>item m. mapSet (crdtIdToString (itemId item)) item m) items []"

datatype side = left | right

definition getSideId :: "('a CrdtSequenceItem) jsmap \<Rightarrow> 'a CrdtSequenceItem \<Rightarrow> side \<Rightarrow> string" where
  "getSideId itemDict item sd =
     (let sideId = (if sd = left then leftId item else rightId item)
      in if crdtIdEquals sideId END_MARKER \<or> \<not> mapHas (crdtIdToString sideId) itemDict
         then (if sd = left then ''__start'' else ''__end'')
         else crdtIdToString sideId)"

text \<open>\<^verbatim>\<open>if (!data.has(k)) data.set(k, new Set()); data.get(k)!.add(x)\<close>\<close>

definition addDep :: "string \<Rightarrow> string \<Rightarrow> (string list) jsmap \<Rightarrow> (string list) jsmap" where
  "addDep k x dat =
     (let dat1 = (if mapHas k dat then dat else mapSet k [] dat)
      in mapSet k (setAdd x (the (mapGet k dat1))) dat1)"

definition buildData ::
  "('a CrdtSequenceItem) jsmap \<Rightarrow> 'a CrdtSequenceItem list \<Rightarrow> (string list) jsmap" where
  "buildData itemDict items =
     fold (\<lambda>item dat.
             (let itemKey = crdtIdToString (itemId item);
                  leftKey = getSideId itemDict item left;
                  rightKey = getSideId itemDict item right
              in addDep rightKey itemKey (addDep itemKey leftKey dat)))
          items []"

text \<open>\<^verbatim>\<open>allDeps\<close> and the loop that gives every dependency an entry.\<close>

definition fillSources :: "(string list) jsmap \<Rightarrow> (string list) jsmap" where
  "fillSources dat =
     (let allDeps = fold setAdd (concat (map snd dat)) []
      in fold (\<lambda>dep d. if mapHas dep d then d else mapSet dep [] d) allDeps dat)"

text \<open>
  The \<^verbatim>\<open>while (true)\<close> loop. \<^verbatim>\<open>nextItems\<close> collects the keys whose
  dependency set is empty; the keys of a \<^verbatim>\<open>Map\<close> are distinct, so the list of them
  is the \<^verbatim>\<open>Set\<close>. Every round that does not stop removes the keys of
  \<^verbatim>\<open>nextItems\<close> from \<^verbatim>\<open>data\<close>, at least one, so the loop ends.
\<close>

function toposortLoop ::
  "('a CrdtSequenceItem) jsmap \<Rightarrow> (string list) jsmap \<Rightarrow> CrdtId list \<Rightarrow> error + CrdtId list" where
  "toposortLoop itemDict dat result =
     (let nextItems = map fst (filter (\<lambda>(item, deps). deps = []) dat)
      in if length nextItems = 1 \<and> ''__end'' \<in> set nextItems then Inr result
         else if length nextItems = 0 then Inl CyclicDependency
         else
           (let sortedItems = defaultSort (filter (\<lambda>k. mapHas k itemDict) nextItems);
                result' = result @ map (\<lambda>key. itemId (the (mapGet key itemDict))) sortedItems;
                newData = map (\<lambda>(item, deps). (item, filter (\<lambda>dep. dep \<notin> set nextItems) deps))
                              (filter (\<lambda>(item, deps). item \<notin> set nextItems) dat)
            in toposortLoop itemDict newData result'))"
  by pat_completeness auto
termination
proof (relation "measure (\<lambda>(itemDict, dat, result). length dat)")
  show "wf (measure (\<lambda>(itemDict, dat, result). length dat))"
    by simp
next
  fix itemDict :: "('a CrdtSequenceItem) jsmap" and dat :: "(string list) jsmap"
    and result :: "CrdtId list" and nextItems sortedItems result' newData
  assume n: "nextItems = map fst (filter (\<lambda>(item, deps). deps = []) dat)"
    and "\<not> (length nextItems = 1 \<and> ''__end'' \<in> set nextItems)"
    and ne: "length nextItems \<noteq> 0"
    and nd: "newData = map (\<lambda>(item, deps). (item, filter (\<lambda>dep. dep \<notin> set nextItems) deps))
                              (filter (\<lambda>(item, deps). item \<notin> set nextItems) dat)"
  from ne obtain k where k: "k \<in> set nextItems"
    by (cases nextItems) auto
  with n obtain deps where kd: "(k, deps) \<in> set dat"
    by auto
  have "length (filter (\<lambda>(item, deps). item \<notin> set nextItems) dat) < length dat"
    by (rule length_filter_less [OF kd]) (use k in simp)
  then show "((itemDict, newData, result'), (itemDict, dat, result))
      \<in> measure (\<lambda>(itemDict, dat, result). length dat)"
    using nd by simp
qed

definition toposortItems :: "'a CrdtSequenceItem list \<Rightarrow> error + CrdtId list" where
  "toposortItems items =
     (if items = [] then Inr []
      else
        (let itemDict = buildItemDict items;
             dat = fillSources (buildData itemDict items)
         in toposortLoop itemDict dat []))"

text \<open>
  \<^verbatim>\<open>class CrdtSequence\<close>: the map \<^verbatim>\<open>_items\<close> from the string of an item's id
  to the item.
\<close>

type_synonym 'a CrdtSequence = "('a CrdtSequenceItem) jsmap"

definition newCrdtSequence :: "'a CrdtSequenceItem list \<Rightarrow> 'a CrdtSequence" where
  "newCrdtSequence items = fold (\<lambda>item m. mapSet (crdtIdToString (itemId item)) item m) items []"

definition sequenceItems :: "'a CrdtSequence \<Rightarrow> 'a CrdtSequenceItem list" where
  "sequenceItems sq = map snd sq"

definition keys :: "'a CrdtSequence \<Rightarrow> error + CrdtId list" where
  "keys sq = toposortItems (sequenceItems sq)"

definition seqGet :: "CrdtId \<Rightarrow> 'a CrdtSequence \<Rightarrow> 'a option" where
  "seqGet key sq = map_option itemValue (mapGet (crdtIdToString key) sq)"

definition seqHas :: "CrdtId \<Rightarrow> 'a CrdtSequence \<Rightarrow> bool" where
  "seqHas key sq = mapHas (crdtIdToString key) sq"

definition seqAdd :: "'a CrdtSequenceItem \<Rightarrow> 'a CrdtSequence \<Rightarrow> error + 'a CrdtSequence" where
  "seqAdd item sq =
     (let key = crdtIdToString (itemId item)
      in if mapHas key sq then Inl AlreadyHaveItem else Inr (mapSet key item sq))"

section \<open>scene-items and scene-tree\<close>

text \<open>
  Strokes and text. A number that is only stored is kept as the bit pattern of its
  IEEE-754 value (\<open>float64\<close>, or \<open>float32\<close> where it was read as four
  bytes); ids of colours, tools and styles are the integers read from the wire.
\<close>

type_synonym float32 = "32 word"
type_synonym float64 = "64 word"

record Point =
  point_x :: float64
  point_y :: float64
  speed :: float64
  direction :: float64
  width :: float64
  pressure :: float64

record Line =
  color :: int
  tool :: int
  points :: "Point list"
  thicknessScale :: float64
  startingLength :: float32
  moveId :: "CrdtId option"

record Text =
  items :: "(jsstring + int) CrdtSequence"
  styles :: "(int LwwValue) jsmap"
  posX :: float64
  posY :: float64
  textWidth :: float32

text \<open>
  A child of a group is a stroke, a highlight or a group. A group that is a child is the
  very object that the tree holds under its id (\<^verbatim>\<open>value: node\<close> in
  \<^verbatim>\<open>buildTree\<close>), and the tree never replaces or removes an object it holds: the
  model stores the key of that object in the tree, so that a later change of the group is
  seen through every child entry that refers to it.
\<close>

datatype SceneItem =
    LineItem Line
  | GlyphRangeItem GlyphRange
  | GroupItem string

record Group =
  nodeId :: CrdtId
  children :: "(SceneItem option) CrdtSequence"
  label :: "jsstring LwwValue"
  visible :: "bool LwwValue"
  anchorId :: "(CrdtId LwwValue) option"
  anchorType :: "(int LwwValue) option"
  anchorThreshold :: "(float32 LwwValue) option"
  anchorOriginX :: "(float32 LwwValue) option"

text \<open>\<^verbatim>\<open>createGroup(nodeId)\<close> with no options: the defaults.\<close>

definition createGroup :: "CrdtId \<Rightarrow> Group" where
  "createGroup nid =
     \<lparr>nodeId = nid,
      children = newCrdtSequence [],
      label = \<lparr>timestamp = \<lparr>part1 = 0, part2 = 0\<rparr>, lwwValue = []\<rparr>,
      visible = \<lparr>timestamp = \<lparr>part1 = 0, part2 = 0\<rparr>, lwwValue = True\<rparr>,
      anchorId = None, anchorType = None, anchorThreshold = None, anchorOriginX = None\<rparr>"

text \<open>
  The blocks of scene-stream, with the fields that \<^verbatim>\<open>buildTree\<close> can reach
  (\<^verbatim>\<open>extraData\<close> and \<^verbatim>\<open>extraValueData\<close> are never read by it). The item of an
  item block has the value \<^verbatim>\<open>null\<close> when the block had no sub-block 6. An
  \<^verbatim>\<open>UnreadableBlock\<close> carries the block type of the envelope it was read from and
  none of the other fields of that type. The blocks that the builder passes over (author
  ids, migration info, page info, scene info, tombstone and text items) are
  \<open>OtherBlock\<close> with their block type.
\<close>

datatype Block =
    SceneTreeBlock CrdtId CrdtId bool CrdtId
  | TreeNodeBlock Group
  | SceneGroupItemBlock CrdtId "(CrdtId option) CrdtSequenceItem"
  | SceneLineItemBlock CrdtId "(Line option) CrdtSequenceItem"
  | SceneGlyphItemBlock CrdtId "(GlyphRange option) CrdtSequenceItem"
  | RootTextBlock CrdtId Text
  | UnreadableBlock int
  | OtherBlock int

text \<open>
  \<^verbatim>\<open>class SceneTree\<close>: \<^verbatim>\<open>_nodes\<close> and \<^verbatim>\<open>rootText\<close>. The constructor
  registers the root group under \<^verbatim>\<open>ROOT_ID = CrdtId(0, 1)\<close>.
\<close>

record SceneTree =
  nodes :: "Group jsmap"
  rootText :: "Text option"

definition ROOT_ID :: CrdtId where
  "ROOT_ID = createCrdtId 0 1"

definition newSceneTree :: SceneTree where
  "newSceneTree = \<lparr>nodes = mapSet (crdtIdToString ROOT_ID) (createGroup ROOT_ID) [], rootText = None\<rparr>"

definition treeHas :: "CrdtId \<Rightarrow> SceneTree \<Rightarrow> bool" where
  "treeHas nid tree = mapHas (crdtIdToString nid) (nodes tree)"

definition treeGet :: "CrdtId \<Rightarrow> SceneTree \<Rightarrow> Group option" where
  "treeGet nid tree = mapGet (crdtIdToString nid) (nodes tree)"

text \<open>\<^verbatim>\<open>addNode(nodeId, parentId)\<close>: the parent is not used.\<close>

definition addNode :: "CrdtId \<Rightarrow> CrdtId \<Rightarrow> SceneTree \<Rightarrow> SceneTree" where
  "addNode nid parentId tree =
     (let key = crdtIdToString nid
      in if \<not> mapHas key (nodes tree) then tree\<lparr>nodes := mapSet key (createGroup nid) (nodes tree)\<rparr>
         else tree)"

text \<open>
  \<^verbatim>\<open>addItem(item, parentId)\<close>: the parent's \<^verbatim>\<open>children.add(item)\<close> changes the
  parent object in place, which the model writes back under the parent's key.
\<close>

definition addItem ::
  "(SceneItem option) CrdtSequenceItem \<Rightarrow> CrdtId \<Rightarrow> SceneTree \<Rightarrow> (error + unit) \<times> SceneTree" where
  "addItem item parentId tree =
     (case treeGet parentId tree of
        None \<Rightarrow> (Inl ParentNodeDoesNotExist, tree)
      | Some parent \<Rightarrow>
          (case seqAdd item (children parent) of
             Inl e \<Rightarrow> (Inl e, tree)
           | Inr children' \<Rightarrow>
               (Inr (), tree\<lparr>nodes := mapSet (crdtIdToString parentId)
                                          (parent\<lparr>children := children'\<rparr>) (nodes tree)\<rparr>)))"

text \<open>
  One round of the loop of \<^verbatim>\<open>buildTree\<close>. The type guards compare
  \<^verbatim>\<open>blockType\<close> only, so an \<^verbatim>\<open>UnreadableBlock\<close> enters the branch of its block
  type, where its missing fields are \<^verbatim>\<open>undefined\<close>: reading a property of one
  throws a \<^verbatim>\<open>TypeError\<close>, and the root-text branch stores \<^verbatim>\<open>undefined\<close>.
\<close>

definition buildTreeStep :: "Block \<Rightarrow> SceneTree \<Rightarrow> (error + unit) \<times> SceneTree" where
  "buildTreeStep block tree =
     (case block of
        SceneTreeBlock treeId nid isUpdate parentId \<Rightarrow>
          (Inr (), addNode treeId parentId tree)
      | TreeNodeBlock grp \<Rightarrow>
          (case treeGet (nodeId grp) tree of
             None \<Rightarrow> (Inl NodeDoesNotExistForTreeNodeBlock, tree)
           | Some node \<Rightarrow>
               (Inr (), tree\<lparr>nodes := mapSet (crdtIdToString (nodeId grp))
                                          (node\<lparr>label := label grp,
                                                visible := visible grp,
                                                anchorId := anchorId grp,
                                                anchorType := anchorType grp,
                                                anchorThreshold := anchorThreshold grp,
                                                anchorOriginX := anchorOriginX grp\<rparr>)
                                          (nodes tree)\<rparr>))
      | SceneGroupItemBlock parentId item \<Rightarrow>
          (case itemValue item of
             None \<Rightarrow> (Inr (), tree)
           | Some nid \<Rightarrow>
               (case treeGet nid tree of
                  None \<Rightarrow> (Inl NodeDoesNotExistForSceneGroupItemBlock, tree)
                | Some node \<Rightarrow>
                    addItem \<lparr>itemId = itemId item, leftId = leftId item, rightId = rightId item,
                             deletedLength = deletedLength item,
                             itemValue = Some (GroupItem (crdtIdToString nid))\<rparr>
                            parentId tree))
      | SceneLineItemBlock parentId item \<Rightarrow>
          addItem \<lparr>itemId = itemId item, leftId = leftId item, rightId = rightId item,
                   deletedLength = deletedLength item,
                   itemValue = map_option LineItem (itemValue item)\<rparr>
                  parentId tree
      | SceneGlyphItemBlock parentId item \<Rightarrow>
          addItem \<lparr>itemId = itemId item, leftId = leftId item, rightId = rightId item,
                   deletedLength = deletedLength item,
                   itemValue = map_option GlyphRangeItem (itemValue item)\<rparr>
                  parentId tree
      | RootTextBlock blockId txt \<Rightarrow> (Inr (), tree\<lparr>rootText := Some txt\<rparr>)
      | UnreadableBlock bt \<Rightarrow>
          if bt = 0x01 \<or> bt = 0x02 \<or> bt = 0x04 \<or> bt = 0x05 \<or> bt = 0x03
          then (Inl TypeErrorUndefined, tree)
          else if bt = 0x07 then (Inr (), tree\<lparr>rootText := None\<rparr>)
          else (Inr (), tree)
      | OtherBlock bt \<Rightarrow> (Inr (), tree))"

text \<open>
  \<^verbatim>\<open>buildTree(tree, blocks)\<close> changes the tree in place and returns nothing; an
  error leaves the tree as the earlier blocks made it.
\<close>

fun buildTree :: "Block list \<Rightarrow> SceneTree \<Rightarrow> (error + unit) \<times> SceneTree" where
  "buildTree [] tree = (Inr (), tree)"
| "buildTree (block # blocks) tree =
     (case buildTreeStep block tree of
        (Inl e, tree') \<Rightarrow> (Inl e, tree')
      | (Inr _, tree') \<Rightarrow> buildTree blocks tree')"

section \<open>tagged-block-writer and the highlight writer\<close>

text \<open>
  The \<^verbatim>\<open>DataView\<close> setters reduce the number they are given to the width they
  write (\<open>word_of_int\<close>) and store it little-endian at the cursor, after
  \<^verbatim>\<open>_ensureCapacity\<close>. A floating-point value is written from its bit pattern.
\<close>

definition bytesOfWord :: "nat \<Rightarrow> 'a::len word \<Rightarrow> 8 word list" where
  "bytesOfWord n w = map (\<lambda>i. ucast (drop_bit (8 * i) w)) [0..<n]"

definition writeUint8 :: "int \<Rightarrow> DataStream \<Rightarrow> DataStream" where
  "writeUint8 v = writeBytes (bytesOfWord 1 (word_of_int v :: 8 word))"

definition writeBool :: "bool \<Rightarrow> DataStream \<Rightarrow> DataStream" where
  "writeBool b = writeUint8 (if b then 1 else 0)"

definition writeUint32 :: "int \<Rightarrow> DataStream \<Rightarrow> DataStream" where
  "writeUint32 v = writeBytes (bytesOfWord 4 (word_of_int v :: 32 word))"

definition writeFloat64 :: "float64 \<Rightarrow> DataStream \<Rightarrow> DataStream" where
  "writeFloat64 w = writeBytes (bytesOfWord 8 w)"

text \<open>
  \<^verbatim>\<open>writeTag\<close>: \<^verbatim>\<open>(index << 4) | tagType\<close> is a signed 32-bit value, which
  \<^verbatim>\<open>writeVaruint\<close> rejects when it is negative.
\<close>

definition writeTag :: "int \<Rightarrow> TagType \<Rightarrow> DataStream \<Rightarrow> (error + unit) \<times> DataStream" where
  "writeTag index tagType =
     writeVaruint (sint (push_bit 4 (word_of_int index :: 32 word) OR word_of_int (tagTypeValue tagType)))"

text \<open>
  \<^verbatim>\<open>class TaggedBlockWriter\<close>: the stream being written and the
  \<^verbatim>\<open>_inBlock\<close> flag (\<^verbatim>\<open>options\<close> is never read).
\<close>

record TaggedBlockWriter =
  wdata :: DataStream
  inBlock :: bool

definition newTaggedBlockWriter :: TaggedBlockWriter where
  "newTaggedBlockWriter = \<lparr>wdata = forWriting 1024, inBlock = False\<rparr>"

definition onWData :: "(DataStream \<Rightarrow> (error + 'a) \<times> DataStream) \<Rightarrow> TaggedBlockWriter \<Rightarrow> (error + 'a) \<times> TaggedBlockWriter" where
  "onWData f w = (case f (wdata w) of (x, s') \<Rightarrow> (x, w\<lparr>wdata := s'\<rparr>))"

definition pureWData :: "(DataStream \<Rightarrow> DataStream) \<Rightarrow> TaggedBlockWriter \<Rightarrow> (error + unit) \<times> TaggedBlockWriter" where
  "pureWData f w = (Inr (), w\<lparr>wdata := f (wdata w)\<rparr>)"

definition writeInt :: "int \<Rightarrow> int \<Rightarrow> TaggedBlockWriter \<Rightarrow> (error + unit) \<times> TaggedBlockWriter" where
  "writeInt index v =
     thenDo (onWData (writeTag index Byte4)) (\<lambda>_. pureWData (writeUint32 v))"

text \<open>
  \<^verbatim>\<open>startSubblock(index)\<close> puts a fresh stream in place of the writer's and
  returns a closure that holds the previous stream and the fresh one. Until the closure
  runs, the writer's stream is that fresh one (sub-blocks are closed innermost first), so
  the model hands back the previous stream and, at the end, takes the sub-block's bytes
  from the writer's current stream.
\<close>

definition startSubblock :: "TaggedBlockWriter \<Rightarrow> (error + DataStream) \<times> TaggedBlockWriter" where
  "startSubblock w = (Inr (wdata w), w\<lparr>wdata := forWriting 1024\<rparr>)"

definition finishSubblock :: "int \<Rightarrow> DataStream \<Rightarrow> TaggedBlockWriter \<Rightarrow> (error + unit) \<times> TaggedBlockWriter" where
  "finishSubblock index previousData w =
     (let subblockBytes = getBytes (wdata w)
      in thenDo (onWData (writeTag index Length4)) (\<lambda>_.
         thenDo (pureWData (writeUint32 (int (length subblockBytes)))) (\<lambda>_.
         pureWData (writeBytes subblockBytes)))
           (w\<lparr>wdata := previousData\<rparr>))"

text \<open>
  \<^verbatim>\<open>writeString\<close>; \<^verbatim>\<open>TextEncoder.encode\<close> belongs to the platform and
  is the parameter \<open>encode\<close>.
\<close>

definition writeString :: "(jsstring \<Rightarrow> 8 word list) \<Rightarrow> int \<Rightarrow> jsstring \<Rightarrow> TaggedBlockWriter \<Rightarrow> (error + unit) \<times> TaggedBlockWriter" where
  "writeString encode index v =
     thenDo startSubblock (\<lambda>previousData.
       (let bytes = encode v
        in thenDo (onWData (writeVaruint (int (length bytes)))) (\<lambda>_.
           thenDo (pureWData (writeBool True)) (\<lambda>_.
           thenDo (pureWData (writeBytes bytes)) (\<lambda>_.
           finishSubblock index previousData)))))"

fun writeRectangles :: "Rectangle list \<Rightarrow> TaggedBlockWriter \<Rightarrow> (error + unit) \<times> TaggedBlockWriter" where
  "writeRectangles [] = returnValue ()"
| "writeRectangles (rect # rects) =
     thenDo (pureWData (writeFloat64 (rect_x rect))) (\<lambda>_.
     thenDo (pureWData (writeFloat64 (rect_y rect))) (\<lambda>_.
     thenDo (pureWData (writeFloat64 (rect_w rect))) (\<lambda>_.
     thenDo (pureWData (writeFloat64 (rect_h rect))) (\<lambda>_.
     writeRectangles rects))))"

definition writeGlyphRange :: "(jsstring \<Rightarrow> 8 word list) \<Rightarrow> GlyphRange \<Rightarrow> TaggedBlockWriter \<Rightarrow> (error + unit) \<times> TaggedBlockWriter" where
  "writeGlyphRange encode glyph =
     thenDo (case glyphStart glyph of
               None \<Rightarrow> returnValue ()
             | Some start \<Rightarrow> thenDo (writeInt 2 start) (\<lambda>_. writeInt 3 (glyphLength glyph))) (\<lambda>_.
     thenDo (writeInt 4 (glyphColor glyph)) (\<lambda>_.
     thenDo (writeString encode 5 (glyphText glyph)) (\<lambda>_.
     thenDo startSubblock (\<lambda>previousData.
     thenDo (onWData (writeVaruint (int (length (rectangles glyph))))) (\<lambda>_.
     thenDo (writeRectangles (rectangles glyph)) (\<lambda>_.
     finishSubblock 6 previousData))))))"

text \<open>\<^verbatim>\<open>TextEncoder.encode\<close> on code units below \<open>0x80\<close>.\<close>

definition encodeAscii :: "jsstring \<Rightarrow> 8 word list" where
  "encodeAscii str = map ucast str"

section \<open>Concrete inputs\<close>

text \<open>
  \<^verbatim>\<open>TextDecoder('utf-8').decode\<close> on bytes below \<open>0x80\<close>: each byte is the
  code unit of the same value. The concrete inputs below hold such bytes only.
\<close>

definition decodeAscii :: "8 word list \<Rightarrow> jsstring" where
  "decodeAscii bytes = map ucast bytes"

text \<open>
  The value bytes of a highlight with \<^verbatim>\<open>start = 5\<close>, \<^verbatim>\<open>length = 0\<close>,
  \<^verbatim>\<open>color = 9\<close>, \<^verbatim>\<open>text = 'abc'\<close> and no rectangle, field by field as
  \<^verbatim>\<open>writeGlyphRange\<close> lays them out: int 2, int 3, int 4, string 5, sub-block 6.
\<close>

definition glyphBytesZeroLength :: "8 word list" where
  "glyphBytesZeroLength =
     [0x24, 5, 0, 0, 0,
      0x34, 0, 0, 0, 0,
      0x44, 9, 0, 0, 0,
      0x5C, 5, 0, 0, 0, 3, 1, 0x61, 0x62, 0x63,
      0x6C, 1, 0, 0, 0, 0]"

text \<open>
  A tree-node block for the group \<^verbatim>\<open>CrdtId(0, 2)\<close> with the label \<^verbatim>\<open>'L1'\<close>
  stamped \<^verbatim>\<open>CrdtId(1, 7)\<close>, and the scene-tree block that registers that group.
\<close>

definition labelledGroup :: Group where
  "labelledGroup =
     (createGroup (createCrdtId 0 2))
       \<lparr>label := \<lparr>timestamp = createCrdtId 1 7, lwwValue = [0x4C, 0x31]\<rparr>\<rparr>"

definition registerGroup :: Block where
  "registerGroup = SceneTreeBlock (createCrdtId 0 2) (createCrdtId 0 2) False ROOT_ID"

definition registerOtherGroup :: Block where
  "registerOtherGroup = SceneTreeBlock (createCrdtId 0 3) (createCrdtId 0 3) False ROOT_ID"

text \<open>Two items inserted side by side, both between the start and the end of the sequence.\<close>

definition itemNine :: "unit CrdtSequenceItem" where
  "itemNine = createCrdtSequenceItem (createCrdtId 1 9) END_MARKER END_MARKER 0 ()"

definition itemTen :: "unit CrdtSequenceItem" where
  "itemTen = createCrdtSequenceItem (createCrdtId 1 10) END_MARKER END_MARKER 0 ()"

text \<open>The highlight whose bytes are \<open>glyphBytesZeroLength\<close>.\<close>

definition glyphZeroLength :: GlyphRange where
  "glyphZeroLength = createGlyphRange (Some 5) 0 [0x61, 0x62, 0x63] 9 []"

text \<open>
  The equations of the functions defined by general recursion rewrite a call into a term
  that holds the same call again; they are used by hand only.
\<close>

declare readVaruint_loop.simps [simp del] varuintBytes.simps [simp del]
  doubleUntil.simps [simp del] showNat.simps [simp del] toposortLoop.simps [simp del]

section \<open>Properties of the tag codec\<close>

text \<open>
  Reading a varuint never changes the buffer, never fails with
  \<^verbatim>\<open>UnexpectedBlockError\<close>, and moves the position forward when it returns.
\<close>

lemma readUint8_cases:
  obtains (eof) "readUint8 s = (Inl EOF, s)"
  | (byte) b where "readUint8 s = (Inr b, s\<lparr>position := position s + 1\<rparr>)"
  by (cases "position s + 1 > length (buffer s)") (auto simp: readUint8_def)

lemma readVaruint_loop_frame:
  "buffer (snd (readVaruint_loop shift result s)) = buffer s
   \<and> fst (readVaruint_loop shift result s) \<noteq> Inl UnexpectedBlockError
   \<and> (\<forall>v. fst (readVaruint_loop shift result s) = Inr v
          \<longrightarrow> position s < position (snd (readVaruint_loop shift result s)))"
proof (induction shift result s rule: readVaruint_loop.induct)
  case (1 shift result s)
  show ?case
  proof (cases s rule: readUint8_cases)
    case eof
    then show ?thesis
      by (subst (1 2 3 4) readVaruint_loop.simps) simp
  next
    case (byte b)
    show ?thesis
    proof (cases "b AND 0x80 = 0")
      case True
      with byte show ?thesis
        by (subst (1 2 3 4) readVaruint_loop.simps) (simp add: Let_def)
    next
      case False
      with byte "1.IH" [OF byte [symmetric] refl refl refl False] show ?thesis
        by (subst (1 2 3 4) readVaruint_loop.simps) (auto simp: Let_def)
    qed
  qed
qed

lemma readVaruint_advances:
  assumes "readVaruint s = (Inr x, s')"
  shows "buffer s' = buffer s" and "position s < position s'"
  using assms readVaruint_loop_frame [of 0 0 s] by (simp_all add: readVaruint_def)

lemma readTagValues_frame:
  "buffer (snd (readTagValues s)) = buffer s
   \<and> fst (readTagValues s) \<noteq> Inl UnexpectedBlockError"
  using readVaruint_loop_frame [of 0 0 s]
  by (auto simp: readTagValues_def readVaruint_def Let_def split: prod.splits sum.splits option.splits)

text \<open>
  C4 as stated fails. The byte \<open>0x13\<close> is a tag with field index 1 and the wire type
  3, which is none of the five of \<^verbatim>\<open>TagType\<close>. \<^verbatim>\<open>readTag(1, TagType.ID)\<close>
  expects the wire type \<open>0xF\<close>; it fails there with the plain error
  \<^verbatim>\<open>Bad tag type\<close> of \<^verbatim>\<open>_readTagValues\<close>, not with
  \<^verbatim>\<open>UnexpectedBlockError\<close>, and the position stays behind the tag (2, from 1).
\<close>

theorem readTag_bad_tag_type_counterexample:
  "readVaruint \<lparr>buffer = [0x00, 0x13, 0x00], position = 1\<rparr>
     = (Inr 0x13, \<lparr>buffer = [0x00, 0x13, 0x00], position = 2\<rparr>)
   \<and> (0x13 :: int) AND 0xF = 3
   \<and> tagTypeValue ID = 15
   \<and> readTag 1 ID \<lparr>buffer = [0x00, 0x13, 0x00], position = 1\<rparr>
       = (Inl BadTagType, \<lparr>buffer = [0x00, 0x13, 0x00], position = 2\<rparr>)"
  by code_simp

text \<open>
  C4 as amended. Let the varuint of the tag be read as \<open>x\<close>, leaving the stream
  \<open>s'\<close>. If the low four bits of \<open>x\<close> are not a wire type of
  \<^verbatim>\<open>TagType\<close>, \<^verbatim>\<open>readTag\<close> fails with \<^verbatim>\<open>Bad tag type\<close> and leaves the
  stream at \<open>s'\<close>, behind the tag: nothing is restored. If they are a wire type of
  \<^verbatim>\<open>TagType\<close> and the field index \<open>x >> 4\<close> or that wire type is not the
  expected one, \<^verbatim>\<open>readTag\<close> fails with \<^verbatim>\<open>UnexpectedBlockError\<close> (the spec's
  UnexpectedTag) and the stream, its position included, is as it was before the call.
\<close>

theorem readTag_fails_on_decoded_tag:
  assumes "readVaruint s = (Inr x, s')"
  shows "(tagTypeOfValue (x AND 0xF) = None \<longrightarrow>
            readTag expectedIndex expectedType s = (Inl BadTagType, s')
            \<and> position s < position s')
       \<and> (\<forall>tagType. tagTypeOfValue (x AND 0xF) = Some tagType
              \<and> (drop_bit 4 x \<noteq> expectedIndex \<or> tagType \<noteq> expectedType) \<longrightarrow>
            readTag expectedIndex expectedType s = (Inl UnexpectedBlockError, s))"
proof -
  have "buffer s' = buffer s"
    using readVaruint_advances(1) [OF assms] .
  then have restored: "s'\<lparr>position := position s\<rparr> = s"
    by (cases s, cases s') simp
  show ?thesis
    using assms restored readVaruint_advances(2) [OF assms]
    by (auto simp: readTag_def readTagValues_def Let_def)
qed

theorem readTag_fails_on_decoded_tag_witness:
  "readVaruint \<lparr>buffer = [0x00, 0x13, 0x00], position = 1\<rparr>
     = (Inr 0x13, \<lparr>buffer = [0x00, 0x13, 0x00], position = 2\<rparr>)
   \<and> tagTypeOfValue (0x13 AND 0xF) = None
   \<and> readTag 1 ID \<lparr>buffer = [0x00, 0x13, 0x00], position = 1\<rparr>
       = (Inl BadTagType, \<lparr>buffer = [0x00, 0x13, 0x00], position = 2\<rparr>)
   \<and> readVaruint \<lparr>buffer = [0x00, 0x1F, 0x00], position = 1\<rparr>
       = (Inr 0x1F, \<lparr>buffer = [0x00, 0x1F, 0x00], position = 2\<rparr>)
   \<and> tagTypeOfValue (0x1F AND 0xF) = Some ID
   \<and> readTag 2 ID \<lparr>buffer = [0x00, 0x1F, 0x00], position = 1\<rparr>
       = (Inl UnexpectedBlockError, \<lparr>buffer = [0x00, 0x1F, 0x00], position = 1\<rparr>)
   \<and> readTag 1 Byte4 \<lparr>buffer = [0x00, 0x1F, 0x00], position = 1\<rparr>
       = (Inl UnexpectedBlockError, \<lparr>buffer = [0x00, 0x1F, 0x00], position = 1\<rparr>)"
proof -
  let ?bad = "\<lparr>buffer = [0x00, 0x13, 0x00], position = 1\<rparr>"
  let ?good = "\<lparr>buffer = [0x00, 0x1F, 0x00], position = 1\<rparr>"
  have read_bad: "readVaruint ?bad = (Inr 0x13, \<lparr>buffer = [0x00, 0x13, 0x00], position = 2\<rparr>)"
    by code_simp
  have read_good: "readVaruint ?good = (Inr 0x1F, \<lparr>buffer = [0x00, 0x1F, 0x00], position = 2\<rparr>)"
    by code_simp
  have unknown: "tagTypeOfValue (0x13 AND 0xF) = None"
    by code_simp
  have known: "tagTypeOfValue (0x1F AND 0xF) = Some ID"
    by code_simp
  have index: "drop_bit 4 (0x1F :: int) = 1"
    by code_simp
  have bad: "readTag 1 ID ?bad = (Inl BadTagType, \<lparr>buffer = [0x00, 0x13, 0x00], position = 2\<rparr>)"
    using readTag_fails_on_decoded_tag [OF read_bad, of 1 ID] unknown by blast
  have wrong_index: "readTag 2 ID ?good = (Inl UnexpectedBlockError, ?good)"
    using readTag_fails_on_decoded_tag [OF read_good, of 2 ID] known index by simp
  have wrong_type: "readTag 1 Byte4 ?good = (Inl UnexpectedBlockError, ?good)"
    using readTag_fails_on_decoded_tag [OF read_good, of 1 Byte4] known by simp
  show ?thesis
    using read_bad unknown bad read_good known wrong_index wrong_type by blast
qed

text \<open>
  In terms of \<^verbatim>\<open>_readTagValues\<close>: a tag that decodes and does not match leaves the
  whole stream as it was, and \<^verbatim>\<open>readTag\<close> fails with
  \<^verbatim>\<open>UnexpectedBlockError\<close> exactly when the tag decodes and does not match.
\<close>

lemma readTag_mismatch_restores_stream:
  assumes "readTagValues s = (Inr (index, tagType), s')"
    and "index \<noteq> expectedIndex \<or> tagType \<noteq> expectedType"
  shows "readTag expectedIndex expectedType s = (Inl UnexpectedBlockError, s)"
proof -
  have "buffer s' = buffer s"
    using readTagValues_frame [of s] assms(1) by simp
  then have "s'\<lparr>position := position s\<rparr> = s"
    by (cases s, cases s') simp
  then show ?thesis
    using assms by (auto simp: readTag_def Let_def)
qed

lemma readTag_UnexpectedBlockError_iff:
  "fst (readTag expectedIndex expectedType s) = Inl UnexpectedBlockError
     \<longleftrightarrow> (\<exists>index tagType s'. readTagValues s = (Inr (index, tagType), s')
            \<and> (index \<noteq> expectedIndex \<or> tagType \<noteq> expectedType))"
  using readTagValues_frame [of s]
  by (auto simp: readTag_def Let_def split: prod.splits sum.splits)

section \<open>Properties of the varuint codec\<close>

text \<open>
  What the reader makes of the bytes the writer emits for \<open>v\<close>, from any shift at
  which the value still fits in 32 bits: the accumulator receives \<open>v\<close> at that
  shift, and the result is the accumulator read as a signed 32-bit integer.
\<close>

lemma varuintBytes_unfold:
  "varuintBytes v =
     (if drop_bit 7 (take_bit 32 v) \<noteq> 0
      then word_of_int (v AND 0x7F OR 0x80) # varuintBytes (drop_bit 7 (take_bit 32 v))
      else [word_of_int (v AND 0x7F)])"
  by (subst varuintBytes.simps) (simp add: Let_def)

lemma int_127: "(127::int) = mask 7"
  by (simp add: mask_eq_exp_minus_1)

lemma bit_128_int: "bit (128::int) n \<longleftrightarrow> n = 7"
  using bit_exp_iff [where ?'a = int, of 7 n] by simp

lemma bit_128_w8: "bit (128::8 word) n \<longleftrightarrow> n = 7"
  using bit_exp_iff [where ?'a = "8 word", of 7 n] by auto

lemma w8_127: "(127::8 word) = mask 7"
  by (simp add: mask_eq_exp_minus_1)

lemma low7_of_continuation_byte:
  "(word_of_int (v AND 0x7F OR 0x80) :: 8 word) AND 0x7F = word_of_int (v AND 0x7F)"
  unfolding int_127 w8_127
  by (rule bit_eqI) (auto simp: bit_simps bit_128_int)

lemma continuation_bit_set:
  "(word_of_int (v AND 0x7F OR 0x80) :: 8 word) AND 0x80 \<noteq> 0"
proof -
  have "bit ((word_of_int (v AND 0x7F OR 0x80) :: 8 word) AND 0x80) 7"
    unfolding int_127 by (simp add: bit_simps bit_128_int bit_128_w8)
  then show ?thesis
    by (metis bit_0_eq bot_apply bot_bool_def)
qed

lemma continuation_bit_clear:
  "(word_of_int (v AND 0x7F) :: 8 word) AND 0x80 = 0"
  unfolding int_127
  by (rule bit_eqI) (auto simp: bit_simps bit_128_w8 bit_128_int)

lemma low7_of_last_byte:
  "(word_of_int (v AND 0x7F) :: 8 word) AND 0x7F = word_of_int (v AND 0x7F)"
  unfolding int_127 w8_127
  by (rule bit_eqI) (auto simp: bit_simps)

lemma ucast_low7:
  "(ucast (word_of_int (v AND 0x7F) :: 8 word) :: 32 word) = word_of_int (v AND 0x7F)"
  unfolding int_127
  by (rule bit_eqI) (auto simp: bit_simps)

lemma split7:
  "(word_of_int v :: 32 word)
     = word_of_int (v AND 0x7F) OR push_bit 7 (word_of_int (drop_bit 7 v))"
  unfolding int_127
  by (rule bit_eqI) (auto simp: bit_simps)


lemma readUint8_at:
  assumes "drop (position s) (buffer s) = b # rest"
  shows "readUint8 s = (Inr b, s\<lparr>position := position s + 1\<rparr>)"
    and "drop (position s + 1) (buffer s) = rest"
proof -
  have lt: "position s < length (buffer s)"
    using assms by (cases "position s < length (buffer s)") auto
  have "buffer s ! position s = b"
    using assms lt by (metis nth_via_drop)
  then show "readUint8 s = (Inr b, s\<lparr>position := position s + 1\<rparr>)"
    using lt by (simp add: readUint8_def)
  show "drop (position s + 1) (buffer s) = rest"
    using assms by (metis Suc_eq_plus1 drop_Suc list.sel(3) tl_drop)
qed

lemma readVaruint_loop_varuintBytes:
  assumes "0 \<le> v" and "v < 2 ^ (32 - shift)" and "shift < 32"
    and "drop (position s) (buffer s) = varuintBytes v @ post"
  shows "readVaruint_loop shift result s
           = (Inr (sint (result OR push_bit shift (word_of_int v))),
              s\<lparr>position := position s + length (varuintBytes v)\<rparr>)"
  using assms
proof (induction v arbitrary: shift result s rule: varuintBytes.induct)
  case (1 v)
  have "(2::int) ^ (32 - shift) \<le> 2 ^ 32"
    by (rule power_increasing) simp_all
  with "1.prems" have v32: "take_bit 32 v = v"
    by (simp add: take_bit_int_eq_self)
  let ?v' = "drop_bit 7 v"
  show ?case
  proof (cases "?v' = 0")
    case True
    then have small: "v < 128"
      using "1.prems"(1) by (simp add: drop_bit_eq_div) 
    then have low: "v AND 0x7F = v"
      using "1.prems"(1) by (simp add: int_127 take_bit_int_eq_self flip: take_bit_eq_mask)
    have bytes: "varuintBytes v = [word_of_int v]"
      using True v32 low by (subst varuintBytes_unfold) simp
    have rd: "readUint8 s = (Inr (word_of_int v), s\<lparr>position := position s + 1\<rparr>)"
      using readUint8_at(1) [of s "word_of_int v" post] "1.prems"(4) bytes by simp
    have clear: "(word_of_int v :: 8 word) AND 0x80 = 0"
      using continuation_bit_clear [of v] low by simp
    have l7: "(ucast ((word_of_int v :: 8 word) AND 0x7F) :: 32 word) = word_of_int v"
      using low7_of_last_byte [of v] ucast_low7 [of v] low by simp
    show ?thesis
      using rd clear l7 "1.prems"(3) bytes
      by (subst readVaruint_loop.simps) (simp add: Let_def)
  next
    case False
    let ?b = "word_of_int (v AND 0x7F OR 0x80) :: 8 word"
    have bytes: "varuintBytes v = ?b # varuintBytes ?v'"
      using False v32 by (subst varuintBytes_unfold) simp
    have rd: "readUint8 s = (Inr ?b, s\<lparr>position := position s + 1\<rparr>)"
      and dr: "drop (position s + 1) (buffer s) = varuintBytes ?v' @ post"
      using readUint8_at [of s ?b "varuintBytes ?v' @ post"] "1.prems"(4) bytes by simp_all
    have big: "128 \<le> v"
      using False "1.prems"(1) by (simp add: drop_bit_eq_div) 
    have sh: "shift + 7 < 32"
    proof (rule ccontr)
      assume "\<not> shift + 7 < 32"
      then have "32 - shift \<le> 7" by simp
      then have "(2::int) ^ (32 - shift) \<le> 2 ^ 7"
        by (rule power_increasing) simp
      with "1.prems"(2) big show False by simp
    qed
    have v'0: "0 \<le> ?v'"
      using "1.prems"(1) by simp
    define K :: int where "K = 2 ^ (32 - (shift + 7))"
    have e: "32 - shift = 7 + (32 - (shift + 7))"
      using sh by simp
    have "(2::int) ^ (32 - shift) = 2 ^ 7 * K"
      unfolding K_def by (subst e) (rule power_add)
    with "1.prems"(2) have "v < 128 * K"
      by simp
    then have "v div 128 < K"
      by arith
    then have v'lt: "?v' < 2 ^ (32 - (shift + 7))"
      by (simp add: drop_bit_eq_div K_def)
    have IH: "readVaruint_loop (shift + 7) (result OR push_bit shift (word_of_int (v AND 0x7F)))
                 (s\<lparr>position := position s + 1\<rparr>)
          = (Inr (sint ((result OR push_bit shift (word_of_int (v AND 0x7F)))
                          OR push_bit (shift + 7) (word_of_int ?v'))),
             s\<lparr>position := position s + 1 + length (varuintBytes ?v')\<rparr>)"
      using "1.IH" [OF refl refl, unfolded v32, OF False v'0 v'lt sh,
          of "s\<lparr>position := position s + 1\<rparr>"
             "result OR push_bit shift (word_of_int (v AND 0x7F))"] dr
      by simp
    have join: "(result OR push_bit shift (word_of_int (v AND 0x7F)))
                  OR push_bit (shift + 7) (word_of_int ?v')
              = result OR push_bit shift (word_of_int v)"
    proof -
      have "push_bit shift (word_of_int v :: 32 word)
          = push_bit shift (word_of_int (v AND 0x7F)) OR push_bit (shift + 7) (word_of_int ?v')"
        by (subst split7 [of v]) (simp add: push_bit_or push_bit_push_bit add.commute)
      then show ?thesis
        by (simp add: or.assoc)
    qed
    have l7: "(ucast (?b AND 0x7F) :: 32 word) = word_of_int (v AND 0x7F)"
      using low7_of_continuation_byte [of v] ucast_low7 [of v] by simp
    show ?thesis
      using rd continuation_bit_set [of v] l7 "1.prems"(3) bytes IH join
      by (subst readVaruint_loop.simps) (simp add: Let_def)
  qed
qed

text \<open>
  The round trip through a writing stream. For \<open>0 \<le> n < 2 ^ 31\<close> the reader
  returns \<open>n\<close>; for \<open>2 ^ 31 \<le> n < 2 ^ 32\<close> it returns \<open>n - 2 ^ 32\<close>. The
  writer uses the least number of bytes throughout \<open>0 \<le> n < 2 ^ 32\<close>: \<open>k\<close> bytes
  hold \<open>n < 128 ^ k\<close>, and more than one byte is used only from \<open>128 ^ (k - 1)\<close> on.
\<close>

lemma writeBytes_appends:
  assumes "position s \<le> length (buffer s)"
  shows "getBytes (writeBytes bytes s) = getBytes s @ bytes"
    and "position (writeBytes bytes s) \<le> length (buffer (writeBytes bytes s))"
proof -
  let ?s1 = "ensureCapacity (length bytes) s"
  have pos: "position ?s1 = position s"
    by (simp add: ensureCapacity_def Let_def)
  have tk: "take (position s) (buffer ?s1) = take (position s) (buffer s)"
    using assms by (simp add: ensureCapacity_def Let_def)
  have len: "length (take (position s) (buffer s)) = position s"
    using assms by simp
  show "getBytes (writeBytes bytes s) = getBytes s @ bytes"
    using tk len by (simp add: getBytes_def writeBytes_def Let_def pos)
  show "position (writeBytes bytes s) \<le> length (buffer (writeBytes bytes s))"
    using tk len by (simp add: writeBytes_def Let_def pos)
qed

lemma forWriting_empty:
  "getBytes (forWriting capacity) = []"
  "position (forWriting capacity) \<le> length (buffer (forWriting capacity))"
  by (simp_all add: forWriting_def newDataStream_def getBytes_def)

lemma getBytes_writeVaruint:
  assumes "0 \<le> n"
  shows "getBytes (snd (writeVaruint n (forWriting capacity))) = varuintBytes n"
  using assms by (simp add: writeVaruint_def writeBytes_appends forWriting_empty)

lemma readVaruint_written:
  assumes "0 \<le> n" and "n < 2 ^ 32"
  shows "readVaruint (newDataStream (getBytes (snd (writeVaruint n (forWriting capacity)))))
           = (Inr (sint (word_of_int n :: 32 word)),
              \<lparr>buffer = varuintBytes n, position = length (varuintBytes n)\<rparr>)"
  using assms readVaruint_loop_varuintBytes [of n 0 "newDataStream (varuintBytes n)" "[]" 0]
  by (simp add: readVaruint_def getBytes_writeVaruint newDataStream_def)

lemma varuint_roundtrip_below_2_31:
  assumes "0 \<le> n" and "n < 2 ^ 31"
  shows "fst (readVaruint (newDataStream (getBytes (snd (writeVaruint n (forWriting capacity))))))
           = Inr n"
proof -
  have "sint (word_of_int n :: 32 word) = n"
    using assms by (simp add: int_word_sint)
  then show ?thesis
    using assms readVaruint_written [of n capacity] by simp
qed

lemma varuint_roundtrip_from_2_31:
  assumes "2 ^ 31 \<le> n" and "n < 2 ^ 32"
  shows "fst (readVaruint (newDataStream (getBytes (snd (writeVaruint n (forWriting capacity))))))
           = Inr (n - 2 ^ 32)"
proof -
  have "(n + 2 ^ 31) mod 2 ^ 32 = n + 2 ^ 31 - 2 ^ 32"
    using assms by (simp add: mod_pos_geq)
  then have "sint (word_of_int n :: 32 word) = n - 2 ^ 32"
    by (simp add: int_word_sint)
  then show ?thesis
    using assms readVaruint_written [of n capacity] by simp
qed

lemma length_varuintBytes_pos: "0 < length (varuintBytes v)"
  by (subst varuintBytes_unfold) simp

lemma varuintBytes_minimal:
  assumes "0 \<le> v" and "v < 2 ^ 32"
  shows "v < 128 ^ length (varuintBytes v)
       \<and> (1 < length (varuintBytes v) \<longrightarrow> 128 ^ (length (varuintBytes v) - 1) \<le> v)"
  using assms
proof (induction v rule: varuintBytes.induct)
  case (1 v)
  have v32: "take_bit 32 v = v"
    using "1.prems" by (simp add: take_bit_int_eq_self)
  define q r where "q = v div 128" and "r = v mod 128"
  have split_v: "v = 128 * q + r" and r0: "0 \<le> r" and r128: "r < 128"
    by (simp_all add: q_def r_def)
  have q0: "0 \<le> q"
    using "1.prems"(1) by (simp add: q_def)
  have xa: "drop_bit 7 (take_bit 32 v) = q"
    using v32 by (simp add: drop_bit_eq_div q_def)
  show ?case
  proof (cases "q = 0")
    case True
    then have "varuintBytes v = [word_of_int (v AND 0x7F)]"
      using xa by (subst varuintBytes_unfold) simp
    moreover have "v < 128"
      using True split_v r128 by simp
    ultimately show ?thesis
      by simp
  next
    case False
    let ?n = "length (varuintBytes q)"
    have bytes: "length (varuintBytes v) = Suc ?n"
      using False xa by (subst varuintBytes_unfold) simp
    have qlt: "q < 2 ^ 32"
      using "1.prems"(2) split_v r0 q0 by arith
    have IH: "q < 128 ^ ?n \<and> (1 < ?n \<longrightarrow> 128 ^ (?n - 1) \<le> q)"
      using "1.IH" [OF refl refl, unfolded xa, OF False q0 qlt] .
    have qpos: "1 \<le> q"
      using False q0 by arith
    have upper: "v < 128 ^ Suc ?n"
    proof -
      have "q + 1 \<le> 128 ^ ?n"
        using IH by arith
      then have "128 * (q + 1) \<le> 128 * 128 ^ ?n"
        by (rule mult_left_mono) simp
      moreover have "v < 128 * (q + 1)"
        using split_v r128 by arith
      ultimately show ?thesis
        by simp
    qed
    have lower: "128 ^ ?n \<le> v"
    proof (cases "1 < ?n")
      case True
      then have "128 ^ ?n = 128 * (128::int) ^ (?n - 1)"
        by (cases ?n) simp_all
      moreover have "128 * (128::int) ^ (?n - 1) \<le> 128 * q"
        using IH True by simp
      ultimately show ?thesis
        using split_v r0 by arith
    next
      case False
      then have "?n = 1"
        using length_varuintBytes_pos [of q] by arith
      then show ?thesis
        using qpos split_v r0 by simp
    qed
    show ?thesis
      using bytes upper lower by simp
  qed
qed

text \<open>
  C3, at \<open>n = 2 ^ 31\<close>. The writer emits the five bytes \<open>80 80 80 80 08\<close>;
  \<^verbatim>\<open>readVaruint\<close> returns \<open>- 2 ^ 31\<close> for them, not \<open>n\<close>: its accumulator is a
  signed 32-bit integer.
\<close>

theorem varuint_roundtrip_at_2147483648:
  "getBytes (snd (writeVaruint 2147483648 (forWriting 1024))) = [0x80, 0x80, 0x80, 0x80, 0x08]
   \<and> fst (readVaruint (newDataStream (getBytes (snd (writeVaruint 2147483648 (forWriting 1024))))))
       = Inr (- 2147483648)"
  by code_simp

section \<open>Properties of the highlight reader\<close>

text \<open>A value below 128 is written as the one byte of that value.\<close>

lemma varuintBytes_small:
  assumes "0 \<le> v" and "v < 128"
  shows "varuintBytes v = [word_of_int v]"
proof -
  have "take_bit 32 v = v"
    using assms by (simp add: take_bit_int_eq_self)
  moreover have "v div 128 = 0"
    using assms by simp
  moreover have "v AND 0x7F = v"
  proof -
    have "take_bit 7 v = v"
      using assms by (simp add: take_bit_int_eq_self)
    then show ?thesis
      by (simp add: take_bit_eq_mask mask_eq_exp_minus_1)
  qed
  ultimately show ?thesis
    by (subst varuintBytes.simps) (simp add: Let_def drop_bit_eq_div)
qed

lemma thenDo_InrE:
  assumes "thenDo m f s = (Inr b, s'')"
  obtains a s' where "m s = (Inr a, s')" and "f a s' = (Inr b, s'')"
  using assms by (auto simp: thenDo_def split: prod.splits sum.splits)

text \<open>
  What \<^verbatim>\<open>readGlyphRange\<close> returns as length, in terms of its two optional reads: the
  encoded length when the length field is there and is not 0, the length of the text when
  the field is missing and also when it holds 0. The start field plays no part in it.
\<close>

lemma readGlyphRange_length:
  assumes "readGlyphRange decode r = (Inr g, r')"
  shows "\<exists>start lengthOpt r1 r2.
           readIntOptional 2 r = (Inr start, r1)
         \<and> readIntOptional 3 r1 = (Inr lengthOpt, r2)
         \<and> glyphStart g = start
         \<and> glyphLength g =
               (case lengthOpt of
                  None \<Rightarrow> int (length (glyphText g))
                | Some l \<Rightarrow> if l \<noteq> 0 then l else int (length (glyphText g)))"
  using assms unfolding readGlyphRange_def
  by (elim thenDo_InrE)
     (auto simp: returnValue_def Let_def createGlyphRange_def split: option.splits if_splits)

text \<open>
  C5, at a highlight whose start is present and whose length is 0 while its text has three
  characters. \<^verbatim>\<open>writeGlyphRange\<close> writes the length field with the value 0; from
  those bytes \<^verbatim>\<open>readGlyphRange\<close> returns the length 3, the length of the text, not
  the encoded 0.
\<close>

theorem readGlyphRange_zero_length:
  "getBytes (wdata (snd (writeGlyphRange encodeAscii glyphZeroLength newTaggedBlockWriter)))
     = glyphBytesZeroLength
   \<and> fst (readGlyphRange decodeAscii (newTaggedBlockReader glyphBytesZeroLength))
       = Inr \<lparr>glyphStart = Some 5, glyphLength = 3, glyphText = [0x61, 0x62, 0x63],
              glyphColor = 9, rectangles = []\<rparr>"
proof (rule conjI)
  show "getBytes (wdata (snd (writeGlyphRange encodeAscii glyphZeroLength newTaggedBlockWriter)))
      = glyphBytesZeroLength"
    by (simp add: writeGlyphRange_def glyphZeroLength_def createGlyphRange_def
          newTaggedBlockWriter_def thenDo_def returnValue_def writeInt_def writeString_def
          startSubblock_def finishSubblock_def onWData_def pureWData_def writeTag_def
          writeVaruint_def writeUint32_def writeBool_def writeUint8_def bytesOfWord_def
          encodeAscii_def glyphBytesZeroLength_def Let_def writeBytes_appends forWriting_empty
          varuintBytes_small upt_rec)
  show "fst (readGlyphRange decodeAscii (newTaggedBlockReader glyphBytesZeroLength))
      = Inr \<lparr>glyphStart = Some 5, glyphLength = 3, glyphText = [0x61, 0x62, 0x63],
             glyphColor = 9, rectangles = []\<rparr>"
    by code_simp
qed

section \<open>Properties of the topological sort\<close>

text \<open>
  C2, at the items \<^verbatim>\<open>CrdtId(1, 9)\<close> and \<^verbatim>\<open>CrdtId(1, 10)\<close>, both ready in the same
  layer: \<open>(1, 9) < (1, 10)\<close> as pairs of numbers (\<^verbatim>\<open>crdtIdCompare\<close> gives -1), yet
  \<^verbatim>\<open>toposortItems\<close> puts \<^verbatim>\<open>CrdtId(1, 10)\<close> first, because it sorts the strings
  \<^verbatim>\<open>'CrdtId(1, 10)'\<close> and \<^verbatim>\<open>'CrdtId(1, 9)'\<close>.
\<close>

theorem toposortItems_orders_layer_by_string:
  "crdtIdCompare (itemId itemNine) (itemId itemTen) = - 1
   \<and> toposortItems [itemNine, itemTen] = Inr [createCrdtId 1 10, createCrdtId 1 9]"
  by code_simp

text \<open>
  Around C2: two items that both sit between the start and the end of the sequence come
  out in the order of their key strings, for all ids whose parts JavaScript prints in full
  (\<open>exactInteger\<close>). For the ids
  \<^verbatim>\<open>CrdtId(1, 5)\<close> and \<^verbatim>\<open>CrdtId(2, 5)\<close> that is also the numeric order.
\<close>

lemma crdtIdToString_not_sentinel:
  "crdtIdToString cid \<noteq> ''__start''" "crdtIdToString cid \<noteq> ''__end''"
  "''__start'' \<noteq> crdtIdToString cid" "''__end'' \<noteq> crdtIdToString cid"
  by (simp_all add: crdtIdToString_def)

lemma toposortLoop_end:
  "toposortLoop itemDict [(''__end'', [])] result = Inr result"
  by (subst toposortLoop.simps) simp

lemma toposortItems_two_concurrent:
  fixes a b :: "'a CrdtSequenceItem"
  assumes "leftId a = END_MARKER" and "rightId a = END_MARKER"
    and "leftId b = END_MARKER" and "rightId b = END_MARKER"
    and "crdtIdToString (itemId a) \<noteq> crdtIdToString (itemId b)"
    and "exactInteger (part1 (itemId a))" and "exactInteger (part2 (itemId a))"
    and "exactInteger (part1 (itemId b))" and "exactInteger (part2 (itemId b))"
  shows "toposortItems [a, b] =
           Inr (if codeUnitLess (crdtIdToString (itemId b)) (crdtIdToString (itemId a))
                then [itemId b, itemId a] else [itemId a, itemId b])"
proof -
  let ?ka = "crdtIdToString (itemId a)" and ?kb = "crdtIdToString (itemId b)"
  have dict: "buildItemDict [a, b] = [(?ka, a), (?kb, b)]"
    using assms(5) by (simp add: buildItemDict_def)
  have side: "getSideId [(?ka, a), (?kb, b)] a left = ''__start''"
    "getSideId [(?ka, a), (?kb, b)] a right = ''__end''"
    "getSideId [(?ka, a), (?kb, b)] b left = ''__start''"
    "getSideId [(?ka, a), (?kb, b)] b right = ''__end''"
    using assms(1-4) by (simp_all add: getSideId_def crdtIdEquals_def)
  have dat: "fillSources (buildData [(?ka, a), (?kb, b)] [a, b])
      = [(?ka, [''__start'']), (''__end'', [?ka, ?kb]), (?kb, [''__start'']), (''__start'', [])]"
    using assms(5) crdtIdToString_not_sentinel [of "itemId a"] crdtIdToString_not_sentinel [of "itemId b"]
    by (simp add: fillSources_def buildData_def side addDep_def mapHas_def mapGet_def setAdd_def Let_def)
  note distinct = assms(5) crdtIdToString_not_sentinel [of "itemId a"]
    crdtIdToString_not_sentinel [of "itemId b"]
  have layer1: "toposortLoop [(?ka, a), (?kb, b)]
        [(?ka, [''__start'']), (''__end'', [?ka, ?kb]), (?kb, [''__start'']), (''__start'', [])] []
      = toposortLoop [(?ka, a), (?kb, b)] [(?ka, []), (''__end'', [?ka, ?kb]), (?kb, [])] []"
    using distinct
    by (subst toposortLoop.simps) (simp add: Let_def mapHas_def mapGet_def defaultSort_def)
  have layer2: "toposortLoop [(?ka, a), (?kb, b)] [(?ka, []), (''__end'', [?ka, ?kb]), (?kb, [])] []
      = toposortLoop [(?ka, a), (?kb, b)] [(''__end'', [])]
          (if codeUnitLess ?kb ?ka then [itemId b, itemId a] else [itemId a, itemId b])"
    using distinct
    by (subst toposortLoop.simps) (simp add: Let_def mapHas_def mapGet_def defaultSort_def)
  show ?thesis
    unfolding toposortItems_def dict Let_def dat layer1 layer2
    by (simp add: toposortLoop_end)
qed

lemma toposortItems_concurrent_1_5_and_2_5:
  "toposortItems
     [createCrdtSequenceItem (createCrdtId 2 5) END_MARKER END_MARKER 0 (),
      createCrdtSequenceItem (createCrdtId 1 5) END_MARKER END_MARKER 0 ()]
   = Inr [createCrdtId 1 5, createCrdtId 2 5]"
  by code_simp

section \<open>Properties of the tree builder\<close>

lemma buildTree_append:
  "buildTree (pre @ post) tree =
     (case buildTree pre tree of
        (Inl e, t) \<Rightarrow> (Inl e, t)
      | (Inr u, t) \<Rightarrow> buildTree post t)"
  by (induction pre arbitrary: tree) (auto split: prod.splits sum.splits)

text \<open>
  C1 as stated fails: on a fresh tree, a tree-node block for \<^verbatim>\<open>CrdtId(0, 2)\<close> makes
  \<^verbatim>\<open>buildTree\<close> throw, and the node is not created.
\<close>

theorem buildTree_TreeNodeBlock_counterexample:
  "treeGet (createCrdtId 0 2) newSceneTree = None
   \<and> fst (buildTree [TreeNodeBlock labelledGroup] newSceneTree) = Inl NodeDoesNotExistForTreeNodeBlock
   \<and> treeGet (createCrdtId 0 2) (snd (buildTree [TreeNodeBlock labelledGroup] newSceneTree)) = None"
  by code_simp

text \<open>
  C1 as amended. Let the blocks before a tree-node block for node N build the tree
  \<open>t\<close> without an error. If N is not in \<open>t\<close>, building fails at that block with
  \<^verbatim>\<open>Node does not exist for TreeNodeBlock\<close>, whatever follows, and leaves \<open>t\<close> as it
  is: N is not created. If N is in \<open>t\<close>, the block's six registers are copied onto N
  and the node id and the children of N stay.
\<close>

theorem buildTree_TreeNodeBlock_requires_node:
  assumes "buildTree pre tree = (Inr (), t)"
  shows "(treeGet (nodeId g) t = None \<longrightarrow>
            buildTree (pre @ TreeNodeBlock g # post) tree
              = (Inl NodeDoesNotExistForTreeNodeBlock, t))
       \<and> (\<forall>node. treeGet (nodeId g) t = Some node \<longrightarrow>
            buildTreeStep (TreeNodeBlock g) t
              = (Inr (), t\<lparr>nodes := mapSet (crdtIdToString (nodeId g))
                                       (node\<lparr>label := label g, visible := visible g,
                                             anchorId := anchorId g, anchorType := anchorType g,
                                             anchorThreshold := anchorThreshold g,
                                             anchorOriginX := anchorOriginX g\<rparr>)
                                       (nodes t)\<rparr>))"
  using assms by (simp add: buildTree_append buildTreeStep_def)

theorem buildTree_TreeNodeBlock_requires_node_witness:
  "buildTree [registerOtherGroup] newSceneTree
     = (Inr (), addNode (createCrdtId 0 3) ROOT_ID newSceneTree)
   \<and> treeGet (nodeId labelledGroup) (addNode (createCrdtId 0 3) ROOT_ID newSceneTree) = None
   \<and> buildTree ([registerOtherGroup] @ TreeNodeBlock labelledGroup # [registerGroup]) newSceneTree
       = (Inl NodeDoesNotExistForTreeNodeBlock, addNode (createCrdtId 0 3) ROOT_ID newSceneTree)
   \<and> buildTree [registerGroup] newSceneTree
       = (Inr (), addNode (createCrdtId 0 2) ROOT_ID newSceneTree)
   \<and> treeGet (nodeId labelledGroup) (addNode (createCrdtId 0 2) ROOT_ID newSceneTree)
       = Some (createGroup (createCrdtId 0 2))
   \<and> treeGet (createCrdtId 0 2)
        (snd (buildTreeStep (TreeNodeBlock labelledGroup)
               (addNode (createCrdtId 0 2) ROOT_ID newSceneTree)))
       = Some labelledGroup"
proof -
  let ?t3 = "addNode (createCrdtId 0 3) ROOT_ID newSceneTree"
  let ?t2 = "addNode (createCrdtId 0 2) ROOT_ID newSceneTree"
  have pre3: "buildTree [registerOtherGroup] newSceneTree = (Inr (), ?t3)"
    by code_simp
  have absent: "treeGet (nodeId labelledGroup) ?t3 = None"
    by code_simp
  have pre2: "buildTree [registerGroup] newSceneTree = (Inr (), ?t2)"
    by code_simp
  have present: "treeGet (nodeId labelledGroup) ?t2 = Some (createGroup (createCrdtId 0 2))"
    by code_simp
  have fails: "buildTree ([registerOtherGroup] @ TreeNodeBlock labelledGroup # [registerGroup]) newSceneTree
      = (Inl NodeDoesNotExistForTreeNodeBlock, ?t3)"
    using buildTree_TreeNodeBlock_requires_node [OF pre3, of labelledGroup "[registerGroup]"] absent
    by blast
  have step: "buildTreeStep (TreeNodeBlock labelledGroup) ?t2
      = (Inr (), ?t2\<lparr>nodes := mapSet (crdtIdToString (nodeId labelledGroup))
                                  ((createGroup (createCrdtId 0 2))
                                     \<lparr>label := label labelledGroup, visible := visible labelledGroup,
                                      anchorId := anchorId labelledGroup,
                                      anchorType := anchorType labelledGroup,
                                      anchorThreshold := anchorThreshold labelledGroup,
                                      anchorOriginX := anchorOriginX labelledGroup\<rparr>)
                                  (nodes ?t2)\<rparr>)"
    using buildTree_TreeNodeBlock_requires_node [OF pre2, of labelledGroup] present
    by blast
  have copied: "treeGet (createCrdtId 0 2) (snd (buildTreeStep (TreeNodeBlock labelledGroup) ?t2))
      = Some labelledGroup"
    unfolding step by code_simp
  show ?thesis
    using pre3 absent fails pre2 present copied by blast
qed

end
